theory Spec2Isabelle
  imports Main "HOL-Library.Word"
begin

section \<open>Go values shared by the packages\<close>

type_synonym bytes = "8 word list"

text \<open>
  A Go \<open>error\<close> value. \<open>New msg\<close> is \<open>errors.New(msg)\<close> or a \<open>fmt.Errorf\<close> without
  \<open>%w\<close>; \<open>Wrap prefix err\<close> is \<open>fmt.Errorf(prefix + "%w", err)\<close>, which keeps
  \<open>err\<close> reachable by \<open>Unwrap\<close>; \<open>ParseError msg\<close> is a value of the library type
  \<open>timestamp.ParseError\<close>.
\<close>

datatype error = New string | Wrap string error | ParseError string

fun Error :: "error \<Rightarrow> string" where
  "Error (New msg) = msg"
| "Error (Wrap prefix err) = prefix @ Error err"
| "Error (ParseError msg) = msg"

text \<open>\<open>errors.As(err, &pe)\<close> with \<open>pe\<close> of type \<open>timestamp.ParseError\<close>: walks the chain.\<close>

fun As_ParseError :: "error \<Rightarrow> bool" where
  "As_ParseError (New msg) = False"
| "As_ParseError (Wrap prefix err) = As_ParseError err"
| "As_ParseError (ParseError msg) = True"

text \<open>A Go call either returns or panics; the two run-time panics the code can raise.\<close>

datatype panic = NilPointerDereference | IndexOutOfRange

datatype 'a exec = Returns 'a | Panics panic

text \<open>Decimal rendering of integers, as \<open>%d\<close> and \<open>strconv.AppendInt(_, v, 10)\<close> do.\<close>

definition digit :: "nat \<Rightarrow> char" where
  "digit d = ''0123456789'' ! d"

fun decimal :: "nat \<Rightarrow> string" where
  "decimal n = (if n < 10 then [digit n] else decimal (n div 10) @ [digit (n mod 10)])"

declare decimal.simps [simp del]

definition Itoa :: "int \<Rightarrow> string" where
  "Itoa i = (if i < 0 then CHR ''-'' # decimal (nat (- i)) else decimal (nat i))"

text \<open>\<open>asn1.ObjectIdentifier.String\<close>: the components in decimal, joined by dots.\<close>

fun ObjectIdentifier_String :: "int list \<Rightarrow> string" where
  "ObjectIdentifier_String [] = ''''"
| "ObjectIdentifier_String [v] = Itoa v"
| "ObjectIdentifier_String (v # w # oi) = Itoa v @ ''.'' @ ObjectIdentifier_String (w # oi)"

section \<open>Certificates, timestamps and verification options\<close>

text \<open>The values of \<open>x509.ExtKeyUsage\<close>, in the order of the Go constants.\<close>

datatype ExtKeyUsage =
    ExtKeyUsageAny
  | ExtKeyUsageServerAuth
  | ExtKeyUsageClientAuth
  | ExtKeyUsageCodeSigning
  | ExtKeyUsageEmailProtection
  | ExtKeyUsageIPSECEndSystem
  | ExtKeyUsageIPSECTunnel
  | ExtKeyUsageIPSECUser
  | ExtKeyUsageTimeStamping
  | ExtKeyUsageOCSPSigning
  | ExtKeyUsageMicrosoftServerGatedCrypto
  | ExtKeyUsageNetscapeServerGatedCrypto
  | ExtKeyUsageMicrosoftCommercialCodeSigning
  | ExtKeyUsageMicrosoftKernelCodeSigning

text \<open>
  The fields of \<open>x509.Certificate\<close> that the verification reads. \<open>Subject\<close> holds the
  text \<open>cert.Subject.String()\<close>; \<open>SerialNumber\<close> is the \<open>big.Int\<close> of a parsed
  certificate.
\<close>

record Certificate =
  Raw :: bytes
  RawIssuer :: bytes
  SerialNumber :: int
  Subject :: string
  ExtKeyUsage :: "ExtKeyUsage list"

text \<open>\<open>(*x509.Certificate).Equal\<close> on two certificates that are not nil.\<close>

definition Certificate_Equal :: "Certificate \<Rightarrow> Certificate \<Rightarrow> bool" where
  "Certificate_Equal c other = (Raw c = Raw other)"

type_synonym Extension = "int list \<times> bool \<times> bytes"

text \<open>
  \<open>timestamp.Timestamp\<close> of the library. \<open>Nonce\<close> is a \<open>*big.Int\<close>: \<open>None\<close> is nil.
  \<open>HashAlgorithm\<close> is the number of a \<open>crypto.Hash\<close>; times and durations are counted
  in nanoseconds.
\<close>

record Timestamp =
  HashAlgorithm :: nat
  HashedMessage :: bytes
  Time :: int
  Nonce :: "int option"
  Policy :: "int list"
  Ordering :: bool
  Accuracy :: int
  Qualified :: bool
  AddTSACertificate :: bool
  ExtraExtensions :: "Extension list"
  Certificates :: "Certificate list"
  RawToken :: bytes

text \<open>
  \<open>VerifyOpts\<close>. A nil pointer or nil slice is \<open>None\<close>; a slice that is empty but
  not nil is \<open>Some []\<close>. The certificates inside a slice are not nil, as the parsers
  produce them. \<open>HashAlgorithm\<close> is a \<open>hash.Hash\<close>, seen as the function from the
  bytes written to the digest.
\<close>

record VerifyOpts =
  Oid :: "int list option"
  TsaCertificate :: "Certificate option"
  Intermediates :: "Certificate list option"
  Roots :: "Certificate list option"
  Nonce :: "int option"
  Subject :: string
  HashAlgorithm :: "(bytes \<Rightarrow> bytes) option"
  HashedMessage :: bytes

section \<open>Package verification: the checks\<close>

definition verifyESSCertID :: "Certificate \<Rightarrow> VerifyOpts \<Rightarrow> error option" where
  "verifyESSCertID tsaCert opts =
     (case TsaCertificate opts of
        None \<Rightarrow> None
      | Some optsCert \<Rightarrow>
          (let errMessage0 = '''';
               errMessage1 =
                 (if RawIssuer optsCert \<noteq> RawIssuer tsaCert
                  then errMessage0 @ ''TSR cert issuer does not match provided TSA cert issuer''
                  else errMessage0);
               errMessage2 =
                 (if SerialNumber optsCert \<noteq> SerialNumber tsaCert
                  then (if errMessage1 \<noteq> ''''
                        then errMessage1 @ '', TSR cert issuer does not match provided TSA cert issuer''
                        else ''TSR cert issuer does not match provided TSA cert issuer'')
                  else errMessage1)
           in if errMessage2 \<noteq> '''' then Some (New errMessage2) else None))"

definition verifyLeafCertSubject :: "string \<Rightarrow> VerifyOpts \<Rightarrow> error option" where
  "verifyLeafCertSubject subject opts =
     (case TsaCertificate opts of
        None \<Rightarrow> None
      | Some optsCert \<Rightarrow>
          (let leafCertSubject = Certificate.Subject optsCert
           in if leafCertSubject \<noteq> subject
              then Some (New (''Leaf cert subject '' @ leafCertSubject
                              @ '' does not match provided subject '' @ subject))
              else None))"

definition verifyEmbeddedLeafCert :: "Certificate \<Rightarrow> VerifyOpts \<Rightarrow> error option" where
  "verifyEmbeddedLeafCert tsaCert opts =
     (case TsaCertificate opts of
        None \<Rightarrow> None
      | Some optsCert \<Rightarrow>
          (if \<not> Certificate_Equal optsCert tsaCert
           then Some (New ''certificate embedded in the TSR does not match the provided TSA certificate'')
           else None))"

text \<open>
  \<open>verifyLeafCert\<close> calls \<open>fmt.Errorf\<close> after each failed sub-check and drops the value
  it builds: there is no \<open>return\<close> in the three branches, and the function ends with
  \<open>return nil\<close>. The dropped values are the \<open>dropped\<close> bindings.
\<close>

definition verifyLeafCert :: "Certificate \<Rightarrow> VerifyOpts \<Rightarrow> error option" where
  "verifyLeafCert cert opts =
     (let errMsg = ''failed to verify leaf cert'';
          err1 = verifyESSCertID cert opts;
          dropped1 = (case err1 of Some e \<Rightarrow> Some (Wrap (errMsg @ '': '') e) | None \<Rightarrow> None);
          err2 = verifyLeafCertSubject (Certificate.Subject cert) opts;
          dropped2 = (case err2 of Some e \<Rightarrow> Some (Wrap (errMsg @ '': '') e) | None \<Rightarrow> None);
          err3 = verifyEmbeddedLeafCert cert opts;
          dropped3 = (case err3 of Some e \<Rightarrow> Some (Wrap (errMsg @ '': '') e) | None \<Rightarrow> None)
      in None)"

definition verifyExtendedKeyUsage :: "Certificate \<Rightarrow> error option" where
  "verifyExtendedKeyUsage cert =
     (let certEKULen = length (ExtKeyUsage cert)
      in if certEKULen \<noteq> 1
         then Some (New (''cert has '' @ Itoa (int certEKULen)
                         @ '' extended key usages, expected only one''))
         else if ExtKeyUsage cert ! 0 \<noteq> ExtKeyUsageTimeStamping
         then Some (New ''leaf cert EKU is not set to TimeStamping as required'')
         else None)"

text \<open>The \<open>for _, cert := range opts.Intermediates\<close> loop.\<close>

fun verifyIntermediatesEKU :: "Certificate list \<Rightarrow> error option" where
  "verifyIntermediatesEKU [] = None"
| "verifyIntermediatesEKU (cert # certs) =
     (case verifyExtendedKeyUsage cert of
        Some err \<Rightarrow> Some (Wrap ''failed to verify EKU on intermediate cert: '' err)
      | None \<Rightarrow> verifyIntermediatesEKU certs)"

definition verifyLeafAndIntermediatesEKU :: "VerifyOpts \<Rightarrow> error option" where
  "verifyLeafAndIntermediatesEKU opts =
     (if TsaCertificate opts = None \<or> Intermediates opts = None then None
      else (let leafCert = the (TsaCertificate opts)
            in case verifyExtendedKeyUsage leafCert of
                 Some err \<Rightarrow> Some (Wrap ''failed to verify EKU on leaf cert: '' err)
               | None \<Rightarrow> verifyIntermediatesEKU (the (Intermediates opts))))"

text \<open>
  The \<open>for i, v := range oid\<close> loop of \<open>verifyOID\<close>, reading \<open>responseOid[i]\<close>; it
  runs only after the two lengths were found equal, so the index is in range.
\<close>

fun verifyOID_loop :: "int list \<Rightarrow> int list \<Rightarrow> nat \<Rightarrow> error option" where
  "verifyOID_loop [] responseOid i = None"
| "verifyOID_loop (v # oid) responseOid i =
     (if v \<noteq> responseOid ! i then Some (New ''OID content does not match'')
      else verifyOID_loop oid responseOid (Suc i))"

definition verifyOID :: "int list \<Rightarrow> VerifyOpts \<Rightarrow> error option" where
  "verifyOID oid opts =
     (case Oid opts of
        None \<Rightarrow> None
      | Some responseOid \<Rightarrow>
          (if length oid \<noteq> length responseOid then Some (New ''OID lengths do not match'')
           else verifyOID_loop oid responseOid 0))"

text \<open>
  \<open>opts.Nonce.Cmp(requestNonce)\<close> reads through \<open>requestNonce\<close>: when the options
  carry a nonce and the response has none, the call panics.
\<close>

definition verifyNonce :: "int option \<Rightarrow> VerifyOpts \<Rightarrow> error option exec" where
  "verifyNonce requestNonce opts =
     (case VerifyOpts.Nonce opts of
        None \<Rightarrow> Returns None
      | Some optsNonce \<Rightarrow>
          (case requestNonce of
             None \<Rightarrow> Panics NilPointerDereference
           | Some n \<Rightarrow>
               (if optsNonce \<noteq> n
                then Returns (Some (New (''incoming nonce '' @ Itoa n
                                         @ '' does not match TSR nonce '' @ Itoa optsNonce)))
                else Returns None)))"

text \<open>
  \<open>verifyHashedMessages\<close>. The reader is the outcome of reading it to the end: its
  content, or the error \<open>io.Copy\<close> returns.
\<close>

definition verifyHashedMessages :: "(bytes \<Rightarrow> bytes) \<Rightarrow> bytes \<Rightarrow> error + bytes \<Rightarrow> error option" where
  "verifyHashedMessages hashAlg hashedMessage artifactReader =
     (case artifactReader of
        Inl err \<Rightarrow> Some (Wrap ''failed to create hash '' err)
      | Inr artifact \<Rightarrow>
          (let localHashedMsg = hashAlg artifact
           in if localHashedMsg \<noteq> hashedMessage then Some (New ''hashed messages don't match'')
              else None))"

section \<open>Package verification: the library and the verify operation\<close>

text \<open>
  The functions of the libraries \<open>digitorus/timestamp\<close>, \<open>digitorus/pkcs7\<close> and
  \<open>crypto\<close> that the package calls. Their code is not part of this repository, so
  they are parameters: \<open>ParseResponse\<close> is \<open>timestamp.ParseResponse\<close>,
  \<open>pkcs7_Parse\<close> is \<open>pkcs7.Parse\<close>, \<open>VerifyWithChain\<close> is the method of the parsed
  message applied to a certificate pool, and \<open>Hash_New h\<close> is the digest function of
  \<open>h.New()\<close> for a \<open>crypto.Hash\<close> \<open>h\<close>, taken to be linked into the binary.
\<close>

record 'p Library =
  ParseResponse :: "bytes \<Rightarrow> error + Timestamp"
  pkcs7_Parse :: "bytes \<Rightarrow> error + 'p"
  VerifyWithChain :: "'p \<Rightarrow> Certificate list \<Rightarrow> error option"
  Hash_New :: "nat \<Rightarrow> bytes \<Rightarrow> bytes"

definition verifyTSRWithChain :: "'p Library \<Rightarrow> Timestamp \<Rightarrow> Certificate list \<Rightarrow> error option" where
  "verifyTSRWithChain L ts certPool =
     (case pkcs7_Parse L (RawToken ts) of
        Inl err \<Rightarrow> Some (Wrap ''error parsing hashed message: '' err)
      | Inr p7Message \<Rightarrow>
          (case VerifyWithChain L p7Message certPool of
             Some err \<Rightarrow> Some (Wrap ''error while verifying with chain: '' err)
           | None \<Rightarrow> None))"

text \<open>
  \<open>VerifyTimestampResponse\<close>. The argument of the call \<open>verifyLeafCert(ts.Certificates[0], opts)\<close>
  is read with no test of the length of \<open>ts.Certificates\<close>: on an empty list the index
  panics.
\<close>

definition VerifyTimestampResponse ::
  "'p Library \<Rightarrow> bytes \<Rightarrow> error + bytes \<Rightarrow> Certificate list \<Rightarrow> VerifyOpts \<Rightarrow> error option exec" where
  "VerifyTimestampResponse L tsrBytes artifact certPool opts =
     (case ParseResponse L tsrBytes of
        Inl err \<Rightarrow>
          (if As_ParseError err
           then Returns (Some (Wrap ''timestamp response is not valid: '' err))
           else Returns (Some (Wrap ''error parsing response into Timestamp: '' err)))
      | Inr ts \<Rightarrow>
          (case verifyTSRWithChain L ts certPool of
             Some err \<Rightarrow> Returns (Some err)
           | None \<Rightarrow>
               (case verifyNonce (Timestamp.Nonce ts) opts of
                  Panics p \<Rightarrow> Panics p
                | Returns (Some err) \<Rightarrow> Returns (Some err)
                | Returns None \<Rightarrow>
                    (case verifyOID (Policy ts) opts of
                       Some err \<Rightarrow> Returns (Some err)
                     | None \<Rightarrow>
                         (case verifyLeafAndIntermediatesEKU opts of
                            Some err \<Rightarrow> Returns (Some err)
                          | None \<Rightarrow>
                              (case Timestamp.Certificates ts of
                                 [] \<Rightarrow> Panics IndexOutOfRange
                               | cert # certs \<Rightarrow>
                                   (case verifyLeafCert cert opts of
                                      Some err \<Rightarrow> Returns (Some err)
                                    | None \<Rightarrow>
                                        Returns (verifyHashedMessages
                                                   (Hash_New L (Timestamp.HashAlgorithm ts))
                                                   (Timestamp.HashedMessage ts) artifact))))))))"


section \<open>Package api: the timestamp handler\<close>

text \<open>The fields of \<open>timestamp.Request\<close> read by the handler.\<close>

record Request =
  HashAlgorithm :: nat
  HashedMessage :: bytes
  Certificates :: bool
  TSAPolicyOID :: "int list"
  Nonce :: "int option"
  Extensions :: "Extension list"

datatype marshal = json_Marshal | asn1_Marshal

text \<open>
  The two message constants and the responders. The constants and
  \<open>handleTimestampAPIError\<close> are declared in a file of package \<open>api\<close> that is not
  among the sources; the call is kept as a value with its status code, its error and
  its message.
\<close>

datatype message = failedToGenerateTimestampResponse | weakHashAlgorithmTimestampRequest

datatype Responder =
    handleTimestampAPIError nat error message
  | GetTimestampResponseCreated bytes

definition StatusBadRequest :: nat where
  "StatusBadRequest = 400"

definition StatusInternalServerError :: nat where
  "StatusInternalServerError = 500"

text \<open>
  What the handler calls outside this file: the two request parsers and
  \<open>CreateResponse\<close> of the timestamp library, \<open>verification.VerifyRequest\<close> (applied
  to a pointer, \<open>None\<close> being nil), and the clock.
\<close>

record 's Services =
  ParseJSONRequest :: "bytes \<Rightarrow> error + Request"
  ParseASN1Request :: "bytes \<Rightarrow> error + Request"
  VerifyRequest :: "Request option \<Rightarrow> error option exec"
  time_Now :: int
  CreateResponse :: "Timestamp \<Rightarrow> Certificate \<Rightarrow> 's \<Rightarrow> marshal \<Rightarrow> error + bytes"

text \<open>The process-wide \<open>api\<close> value: the certificate chain and the signer.\<close>

record 's API =
  certChain :: "Certificate list"
  tsaSigner :: 's

text \<open>
  The parameters of one call: the outcome of \<open>io.ReadAll(params.Request)\<close> and the
  value of the Content-Type header.
\<close>

record Params =
  Request :: "error + bytes"
  Content_Type :: string

text \<open>
  Lines 39 to 55: the locals \<open>req\<close> and \<open>contentType\<close> after the two branches, or the
  responder of a parser that failed.
\<close>

definition decodeRequest ::
  "'s Services \<Rightarrow> string \<Rightarrow> bytes \<Rightarrow> Responder + Request option \<times> string" where
  "decodeRequest S val requestBytes =
     (if val = ''application/json''
      then (case ParseJSONRequest S requestBytes of
              Inl err \<Rightarrow> Inl (handleTimestampAPIError StatusBadRequest err failedToGenerateTimestampResponse)
            | Inr jsonReq \<Rightarrow> Inr (Some jsonReq, val))
      else if val = ''application/timestamp-query''
      then (case ParseASN1Request S requestBytes of
              Inl err \<Rightarrow> Inl (handleTimestampAPIError StatusBadRequest err failedToGenerateTimestampResponse)
            | Inr asn1Req \<Rightarrow> Inr (Some asn1Req, val))
      else Inr (None, ''''))"

text \<open>Lines 61 to 64: the local \<open>policyID\<close>.\<close>

definition policyID :: "Request \<Rightarrow> int list" where
  "policyID req =
     (if ObjectIdentifier_String (TSAPolicyOID req) = '''' then [1, 3, 6, 1, 4, 1, 57264, 2]
      else TSAPolicyOID req)"

text \<open>
  Lines 66 to 80: the local \<open>tsStruct\<close>; \<open>time.ParseDuration("1s")\<close> is one second.
  The fields the literal leaves out have their zero value.
\<close>

definition tsStruct :: "Request \<Rightarrow> int \<Rightarrow> Timestamp" where
  "tsStruct req now =
     \<lparr> Timestamp.HashAlgorithm = Request.HashAlgorithm req,
       Timestamp.HashedMessage = Request.HashedMessage req,
       Timestamp.Time = now,
       Timestamp.Nonce = Request.Nonce req,
       Timestamp.Policy = policyID req,
       Timestamp.Ordering = False,
       Timestamp.Accuracy = 1000000000,
       Timestamp.Qualified = False,
       Timestamp.AddTSACertificate = Request.Certificates req,
       Timestamp.ExtraExtensions = Request.Extensions req,
       Timestamp.Certificates = [],
       Timestamp.RawToken = [] \<rparr>"

text \<open>Lines 82 to 87: the local \<open>marshalFunc\<close>.\<close>

definition marshalFunc :: "string \<Rightarrow> marshal" where
  "marshalFunc contentType =
     (if contentType = ''application/json'' then json_Marshal else asn1_Marshal)"

text \<open>
  \<open>TimestampResponseHandler\<close>. After \<open>VerifyRequest\<close> the handler reads
  \<open>req.TSAPolicyOID\<close> through the pointer \<open>req\<close>, and later \<open>api.certChain[0]\<close>.
\<close>

definition TimestampResponseHandler :: "'s Services \<Rightarrow> 's API \<Rightarrow> Params \<Rightarrow> Responder exec" where
  "TimestampResponseHandler S api params =
     (case Request params of
        Inl err \<Rightarrow>
          Returns (handleTimestampAPIError StatusBadRequest err failedToGenerateTimestampResponse)
      | Inr requestBytes \<Rightarrow>
          (case decodeRequest S (Content_Type params) requestBytes of
             Inl responder \<Rightarrow> Returns responder
           | Inr (req, contentType) \<Rightarrow>
               (case VerifyRequest S req of
                  Panics p \<Rightarrow> Panics p
                | Returns (Some err) \<Rightarrow>
                    Returns (handleTimestampAPIError StatusBadRequest err weakHashAlgorithmTimestampRequest)
                | Returns None \<Rightarrow>
                    (case req of
                       None \<Rightarrow> Panics NilPointerDereference
                     | Some r \<Rightarrow>
                         (case certChain api of
                            [] \<Rightarrow> Panics IndexOutOfRange
                          | leaf # chain \<Rightarrow>
                              (case CreateResponse S (tsStruct r (time_Now S)) leaf (tsaSigner api)
                                      (marshalFunc contentType) of
                                 Inl err \<Rightarrow>
                                   Returns (handleTimestampAPIError StatusInternalServerError err
                                              failedToGenerateTimestampResponse)
                               | Inr resp \<Rightarrow> Returns (GetTimestampResponseCreated resp)))))))"

section \<open>Command certificate_maker: runCreate\<close>

record KMSConfig =
  Type :: string
  RootKeyID :: string
  IntermediateKeyID :: string
  LeafKeyID :: string
  Options :: "string \<rightharpoonup> string"

text \<open>
  What \<open>runCreate\<close> calls: the configuration read by \<open>viper.GetString\<close>, \<open>os.Stat\<close>
  with \<open>os.IsNotExist\<close>, and the three functions of package \<open>certmaker\<close>, which is
  not among the sources.
\<close>

record 'km Certmaker =
  GetString :: "string \<Rightarrow> string"
  os_Stat :: "string \<Rightarrow> error option"
  os_IsNotExist :: "error \<Rightarrow> bool"
  InitKMS :: "KMSConfig \<Rightarrow> error + 'km"
  ValidateTemplatePath :: "string \<Rightarrow> error option"
  CreateCertificates ::
    "'km \<Rightarrow> KMSConfig \<Rightarrow> string \<Rightarrow> string \<Rightarrow> string \<Rightarrow> string \<Rightarrow> string \<Rightarrow> string \<Rightarrow> string \<Rightarrow> error option"

text \<open>
  The calls a run makes, in order. Every signature on a certificate is made inside
  \<open>certmaker.CreateCertificates\<close>.
\<close>

datatype call =
    Call_Stat string
  | Call_InitKMS
  | Call_ValidateTemplatePath string
  | Call_CreateCertificates

text \<open>
  The \<open>switch config.Type\<close> of lines 142 to 169: the configuration with its options
  filled in, or the error of the credentials file, and the calls made.
\<close>

definition providerOptions :: "'km Certmaker \<Rightarrow> KMSConfig \<Rightarrow> (error + KMSConfig) \<times> call list" where
  "providerOptions E config =
     (if Type config = ''awskms''
      then (let awsRegion = GetString E ''aws-region''
            in if awsRegion \<noteq> ''''
               then (Inr (config\<lparr>Options := (Options config)(''aws-region'' \<mapsto> awsRegion)\<rparr>), [])
               else (Inr config, []))
      else if Type config = ''gcpkms''
      then (let gcpCredsFile = GetString E ''gcp-credentials-file''
            in if gcpCredsFile \<noteq> ''''
               then (case os_Stat E gcpCredsFile of
                       Some err \<Rightarrow>
                         (if os_IsNotExist E err
                          then (Inl (New (''failed to initialize KMS: credentials file not found: ''
                                          @ gcpCredsFile)), [Call_Stat gcpCredsFile])
                          else (Inl (Wrap ''failed to initialize KMS: error accessing credentials file: '' err),
                                [Call_Stat gcpCredsFile]))
                     | None \<Rightarrow>
                         (Inr (config\<lparr>Options := (Options config)(''gcp-credentials-file'' \<mapsto> gcpCredsFile)\<rparr>),
                          [Call_Stat gcpCredsFile]))
               else (Inr config, []))
      else if Type config = ''azurekms''
      then (let azureTenantID = GetString E ''azure-tenant-id''
            in if azureTenantID \<noteq> ''''
               then (Inr (config\<lparr>Options := (Options config)(''azure-tenant-id'' \<mapsto> azureTenantID)\<rparr>), [])
               else (Inr config, []))
      else if Type config = ''hashivault''
      then (let vaultToken = GetString E ''vault-token'';
                config1 = (if vaultToken \<noteq> ''''
                           then config\<lparr>Options := (Options config)(''vault-token'' \<mapsto> vaultToken)\<rparr>
                           else config);
                vaultAddr = GetString E ''vault-address'';
                config2 = (if vaultAddr \<noteq> ''''
                           then config1\<lparr>Options := (Options config1)(''vault-address'' \<mapsto> vaultAddr)\<rparr>
                           else config1)
            in (Inr config2, []))
      else (Inr config, []))"

text \<open>
  \<open>runCreate\<close>: the error it returns (\<open>None\<close> is nil) and the calls it made. The
  deferred assignment to \<open>rootCmd.SilenceUsage\<close> and the 30 second context are left
  out.
\<close>

definition runCreate :: "'km Certmaker \<Rightarrow> error option \<times> call list" where
  "runCreate E =
     (let config0 = \<lparr> Type = GetString E ''kms-type'',
                      RootKeyID = GetString E ''root-key-id'',
                      IntermediateKeyID = GetString E ''intermediate-key-id'',
                      LeafKeyID = GetString E ''leaf-key-id'',
                      Options = Map.empty \<rparr>
      in case providerOptions E config0 of
           (Inl err, calls0) \<Rightarrow> (Some err, calls0)
         | (Inr config, calls0) \<Rightarrow>
             (case InitKMS E config of
                Inl err \<Rightarrow> (Some (Wrap ''failed to initialize KMS: '' err), calls0 @ [Call_InitKMS])
              | Inr km \<Rightarrow>
                  (let calls1 = calls0 @ [Call_InitKMS, Call_ValidateTemplatePath (GetString E ''root-template'')]
                   in case ValidateTemplatePath E (GetString E ''root-template'') of
                        Some err \<Rightarrow> (Some (Wrap ''root template error: '' err), calls1)
                      | None \<Rightarrow>
                          (let calls2 = calls1 @ [Call_ValidateTemplatePath (GetString E ''leaf-template'')]
                           in case ValidateTemplatePath E (GetString E ''leaf-template'') of
                                Some err \<Rightarrow> (Some (Wrap ''leaf template error: '' err), calls2)
                              | None \<Rightarrow>
                                  (let create =
                                         CreateCertificates E km config
                                           (GetString E ''root-template'') (GetString E ''leaf-template'')
                                           (GetString E ''root-cert'') (GetString E ''leaf-cert'')
                                           (GetString E ''intermediate-key-id'')
                                           (GetString E ''intermediate-template'')
                                           (GetString E ''intermediate-cert'')
                                   in if GetString E ''intermediate-key-id'' \<noteq> ''''
                                      then (let calls3 = calls2 @ [Call_ValidateTemplatePath
                                                                    (GetString E ''intermediate-template'')]
                                            in case ValidateTemplatePath E (GetString E ''intermediate-template'') of
                                                 Some err \<Rightarrow>
                                                   (Some (Wrap ''intermediate template error: '' err), calls3)
                                               | None \<Rightarrow> (create, calls3 @ [Call_CreateCertificates]))
                                      else (create, calls2 @ [Call_CreateCertificates]))))))"

section \<open>The order of the checks, said the way the specification says it\<close>



section \<open>The two failures of the decoder, under the names of the specification\<close>



section \<open>Sample values\<close>

definition sample_root :: Certificate where
  "sample_root =
     \<lparr> Raw = [1], RawIssuer = [10], SerialNumber = 1, Certificate.Subject = ''CN=root'',
       ExtKeyUsage = [] \<rparr>"

definition sample_intermediate :: Certificate where
  "sample_intermediate =
     \<lparr> Raw = [2], RawIssuer = [10], SerialNumber = 2, Certificate.Subject = ''CN=intermediate'',
       ExtKeyUsage = [ExtKeyUsageTimeStamping] \<rparr>"

definition sample_leaf :: Certificate where
  "sample_leaf =
     \<lparr> Raw = [3], RawIssuer = [20], SerialNumber = 3, Certificate.Subject = ''CN=tsa'',
       ExtKeyUsage = [ExtKeyUsageTimeStamping] \<rparr>"

definition sample_serverAuth :: Certificate where
  "sample_serverAuth =
     \<lparr> Raw = [4], RawIssuer = [20], SerialNumber = 4, Certificate.Subject = ''CN=web'',
       ExtKeyUsage = [ExtKeyUsageServerAuth] \<rparr>"

definition sample_other :: Certificate where
  "sample_other =
     \<lparr> Raw = [5], RawIssuer = [30], SerialNumber = 5, Certificate.Subject = ''CN=other'',
       ExtKeyUsage = [ExtKeyUsageTimeStamping] \<rparr>"

definition sample_ts :: "Certificate list \<Rightarrow> Timestamp" where
  "sample_ts certs =
     \<lparr> Timestamp.HashAlgorithm = 5, Timestamp.HashedMessage = [171], Time = 0,
       Timestamp.Nonce = Some 42, Policy = [1, 3, 6, 1, 4, 1, 57264, 2], Ordering = False,
       Accuracy = 1000000000, Qualified = False, AddTSACertificate = True,
       ExtraExtensions = [], Timestamp.Certificates = certs, RawToken = [48] \<rparr>"

text \<open>
  A stand-in for the libraries: three byte strings parse (to a token with the leaf
  certificate, with another certificate, with none), the empty one is refused with a
  \<open>ParseError\<close>, anything else with another error; the chain verifies against any pool
  that is not empty, and the digest of a text is the text.
\<close>

definition sample_Library :: "unit Library" where
  "sample_Library =
     \<lparr> ParseResponse =
         (\<lambda>b. if b = [48] then Inr (sample_ts [sample_leaf])
              else if b = [49] then Inr (sample_ts [sample_other])
              else if b = [50] then Inr (sample_ts [])
              else if b = [] then Inl (ParseError ''no pkcs7 data in Time-Stamp response'')
              else Inl (New ''asn1: syntax error'')),
       pkcs7_Parse = (\<lambda>b. Inr ()),
       VerifyWithChain = (\<lambda>p pool. if pool = [] then Some (New ''no trusted certificate'') else None),
       Hash_New = (\<lambda>h b. b) \<rparr>"

definition sample_opts_absent :: VerifyOpts where
  "sample_opts_absent =
     \<lparr> Oid = None, TsaCertificate = None, Intermediates = None, Roots = None,
       VerifyOpts.Nonce = None, VerifyOpts.Subject = '''', VerifyOpts.HashAlgorithm = None,
       VerifyOpts.HashedMessage = [] \<rparr>"

definition sample_opts_leaf :: "Certificate \<Rightarrow> VerifyOpts" where
  "sample_opts_leaf leaf =
     \<lparr> Oid = None, TsaCertificate = Some leaf, Intermediates = Some [sample_intermediate],
       Roots = Some [sample_root], VerifyOpts.Nonce = None, VerifyOpts.Subject = ''CN=tsa'',
       VerifyOpts.HashAlgorithm = None, VerifyOpts.HashedMessage = [] \<rparr>"

definition sample_req :: "int list \<Rightarrow> Request" where
  "sample_req oid =
     \<lparr> Request.HashAlgorithm = 5, Request.HashedMessage = [171], Request.Certificates = True,
       TSAPolicyOID = oid, Request.Nonce = Some 42, Extensions = [] \<rparr>"

text \<open>
  A stand-in for what the handler calls: one JSON body and one DER body parse, a nil
  request is refused by the validation, and the response is one byte.
\<close>

definition sample_Services :: "unit Services" where
  "sample_Services =
     \<lparr> ParseJSONRequest =
         (\<lambda>b. if b = [123] then Inr (sample_req []) else Inl (New ''unexpected end of JSON input'')),
       ParseASN1Request =
         (\<lambda>b. if b = [48] then Inr (sample_req [1, 2, 3]) else Inl (New ''asn1: syntax error'')),
       VerifyRequest =
         (\<lambda>req. case req of None \<Rightarrow> Returns (Some (New ''no request'')) | Some r \<Rightarrow> Returns None),
       time_Now = 1700000000000000000,
       CreateResponse = (\<lambda>ts leaf signer m. Inr [48]) \<rparr>"

definition sample_API :: "unit API" where
  "sample_API = \<lparr> certChain = [sample_leaf, sample_intermediate, sample_root], tsaSigner = () \<rparr>"

definition sample_Params :: "string \<Rightarrow> bytes \<Rightarrow> Params" where
  "sample_Params contentType body = \<lparr> Request = Inr body, Content_Type = contentType \<rparr>"

text \<open>
  A stand-in for the configuration and package \<open>certmaker\<close>: the template named by
  \<open>bad\<close> does not validate, every other one does; an intermediate key is configured.
\<close>

definition sample_Certmaker :: "string \<Rightarrow> unit Certmaker" where
  "sample_Certmaker bad =
     \<lparr> GetString =
         (\<lambda>key. if key = ''kms-type'' then ''awskms''
                else if key = ''aws-region'' then ''us-east-1''
                else if key = ''root-template'' then ''root.json''
                else if key = ''leaf-template'' then ''leaf.json''
                else if key = ''intermediate-template'' then ''intermediate.json''
                else if key = ''intermediate-key-id'' then ''alias/intermediate''
                else ''''),
       os_Stat = (\<lambda>path. None),
       os_IsNotExist = (\<lambda>err. False),
       InitKMS = (\<lambda>config. Inr ()),
       ValidateTemplatePath =
         (\<lambda>path. if path = bad then Some (New ''template not found'') else None),
       CreateCertificates = (\<lambda>km config a b c d e f g. None) \<rparr>"

section \<open>Auxiliary facts\<close>

lemma decimal_not_Nil: "decimal n \<noteq> []"
  by (subst decimal.simps) simp

lemma Itoa_not_Nil: "Itoa i \<noteq> []"
  by (simp add: Itoa_def decimal_not_Nil)

lemma ObjectIdentifier_String_empty: "(ObjectIdentifier_String oi = []) = (oi = [])"
  by (induction oi rule: ObjectIdentifier_String.induct) (simp_all add: Itoa_not_Nil)

lemma verifyExtendedKeyUsage_nil:
  "(verifyExtendedKeyUsage cert = None) = (ExtKeyUsage cert = [ExtKeyUsageTimeStamping])"
proof (cases "ExtKeyUsage cert")
  case Nil
  then show ?thesis by (simp add: verifyExtendedKeyUsage_def)
next
  case (Cons u us)
  then show ?thesis by (cases us) (simp_all add: verifyExtendedKeyUsage_def)
qed

lemma verifyIntermediatesEKU_nil:
  "(verifyIntermediatesEKU certs = None) = (\<forall>c \<in> set certs. ExtKeyUsage c = [ExtKeyUsageTimeStamping])"
proof (induction certs)
  case Nil
  show ?case by simp
next
  case (Cons cert certs)
  show ?case
  proof (cases "verifyExtendedKeyUsage cert")
    case None
    with Cons show ?thesis using verifyExtendedKeyUsage_nil [of cert] by simp
  next
    case (Some err)
    then show ?thesis using verifyExtendedKeyUsage_nil [of cert] by simp
  qed
qed

lemma verifyIntermediatesEKU_error:
  "verifyIntermediatesEKU certs = Some e \<Longrightarrow>
     \<exists>err. e = Wrap ''failed to verify EKU on intermediate cert: '' err"
  by (induction certs) (auto split: option.splits)

lemma verifyLeafCert_nil: "verifyLeafCert cert opts = None"
  by (simp add: verifyLeafCert_def Let_def)


lemma policyID_eq:
  "policyID req = (if TSAPolicyOID req = [] then [1, 3, 6, 1, 4, 1, 57264, 2] else TSAPolicyOID req)"
  by (simp add: policyID_def ObjectIdentifier_String_empty)

section \<open>The claims\<close>

text \<open>
  Claim C1. The claim: when an expected leaf certificate is supplied, a failure of any of
  the three sub-checks of the leaf identity (issuer and serial number, subject, equality
  with the embedded certificate) makes the verification return a leaf certificate
  mismatch. The code does not do so. At the input below the certificate embedded in the
  response differs from the expected leaf certificate in issuer, serial number, subject
  and raw bytes; each of the three sub-checks reports its error, \<open>verifyLeafCert\<close> returns
  nil all the same, and \<open>VerifyTimestampResponse\<close> returns nil, which is success.
\<close>

theorem C1_leaf_mismatch_accepted:
  "verifyESSCertID sample_other (sample_opts_leaf sample_leaf) \<noteq> None
   \<and> verifyLeafCertSubject (Certificate.Subject sample_other) (sample_opts_leaf sample_leaf) \<noteq> None
   \<and> verifyEmbeddedLeafCert sample_other (sample_opts_leaf sample_leaf) \<noteq> None
   \<and> verifyLeafCert sample_other (sample_opts_leaf sample_leaf) = None
   \<and> VerifyTimestampResponse sample_Library [49] (Inr [171]) [sample_root]
        (sample_opts_leaf sample_leaf) = Returns None"
proof -
  let ?opts = "sample_opts_leaf sample_leaf"
  let ?ts = "sample_ts [sample_other]"
  have ess: "verifyESSCertID sample_other ?opts \<noteq> None"
    by (simp add: verifyESSCertID_def sample_other_def sample_opts_leaf_def sample_leaf_def)
  have subj: "verifyLeafCertSubject (Certificate.Subject sample_other) ?opts \<noteq> None"
    by (simp add: verifyLeafCertSubject_def sample_other_def sample_opts_leaf_def sample_leaf_def)
  have emb: "verifyEmbeddedLeafCert sample_other ?opts \<noteq> None"
    by (simp add: verifyEmbeddedLeafCert_def Certificate_Equal_def sample_other_def
        sample_opts_leaf_def sample_leaf_def)
  have leaf: "verifyLeafCert sample_other ?opts = None"
    by (simp add: verifyLeafCert_def Let_def)
  have parse: "ParseResponse sample_Library [49] = Inr ?ts"
    by (simp add: sample_Library_def)
  have chain: "verifyTSRWithChain sample_Library ?ts [sample_root] = None"
    by (simp add: verifyTSRWithChain_def sample_Library_def)
  have nonce: "verifyNonce (Timestamp.Nonce ?ts) ?opts = Returns None"
    by (simp add: verifyNonce_def sample_opts_leaf_def)
  have oid: "verifyOID (Policy ?ts) ?opts = None"
    by (simp add: verifyOID_def sample_opts_leaf_def)
  have eku: "verifyLeafAndIntermediatesEKU ?opts = None"
    by (simp add: verifyLeafAndIntermediatesEKU_def verifyExtendedKeyUsage_def
        sample_opts_leaf_def sample_leaf_def sample_intermediate_def)
  have certs: "Timestamp.Certificates ?ts = [sample_other]"
    by (simp add: sample_ts_def)
  have hash: "verifyHashedMessages (Hash_New sample_Library (Timestamp.HashAlgorithm ?ts))
                (Timestamp.HashedMessage ?ts) (Inr [171]) = None"
    by (simp add: verifyHashedMessages_def sample_Library_def sample_ts_def)
  have "VerifyTimestampResponse sample_Library [49] (Inr [171]) [sample_root] ?opts = Returns None"
    by (simp add: VerifyTimestampResponse_def parse chain nonce oid eku certs leaf hash)
  with ess subj emb leaf show ?thesis by simp
qed


text \<open>
  Claim C4. When the options carry both an expected leaf certificate and a set of
  intermediates, the EKU chaining check succeeds if every certificate among the leaf and
  the intermediates has an extended key usage list of length one whose value is time
  stamping, and otherwise fails with the EKU error of the leaf or of an intermediate.
\<close>

theorem C4_eku_chaining:
  assumes "TsaCertificate opts = Some leaf" and "Intermediates opts = Some intermediates"
  shows "if \<forall>cert \<in> set (leaf # intermediates). ExtKeyUsage cert = [ExtKeyUsageTimeStamping]
         then verifyLeafAndIntermediatesEKU opts = None
         else \<exists>err. verifyLeafAndIntermediatesEKU opts
                      = Some (Wrap ''failed to verify EKU on leaf cert: '' err)
                   \<or> verifyLeafAndIntermediatesEKU opts
                      = Some (Wrap ''failed to verify EKU on intermediate cert: '' err)"
proof (cases "verifyExtendedKeyUsage leaf")
  case (Some err)
  then have "ExtKeyUsage leaf \<noteq> [ExtKeyUsageTimeStamping]"
    using verifyExtendedKeyUsage_nil [of leaf] by simp
  moreover have "verifyLeafAndIntermediatesEKU opts
                   = Some (Wrap ''failed to verify EKU on leaf cert: '' err)"
    using assms Some by (simp add: verifyLeafAndIntermediatesEKU_def)
  ultimately show ?thesis by auto
next
  case None
  then have leaf: "ExtKeyUsage leaf = [ExtKeyUsageTimeStamping]"
    using verifyExtendedKeyUsage_nil [of leaf] by simp
  have eq: "verifyLeafAndIntermediatesEKU opts = verifyIntermediatesEKU intermediates"
    using assms None by (simp add: verifyLeafAndIntermediatesEKU_def)
  show ?thesis
  proof (cases "verifyIntermediatesEKU intermediates")
    case None
    then show ?thesis
      using eq leaf verifyIntermediatesEKU_nil [of intermediates] by simp
  next
    case (Some e)
    then have "\<not> (\<forall>cert \<in> set intermediates. ExtKeyUsage cert = [ExtKeyUsageTimeStamping])"
      using verifyIntermediatesEKU_nil [of intermediates] by simp
    moreover obtain err where "e = Wrap ''failed to verify EKU on intermediate cert: '' err"
      using verifyIntermediatesEKU_error [OF Some] by blast
    ultimately show ?thesis using eq Some by auto
  qed
qed

text \<open>The statement at sample values.\<close>

theorem C4_eku_chaining_witness:
  "verifyLeafAndIntermediatesEKU (sample_opts_leaf sample_leaf) = None
   \<and> (\<exists>err. verifyLeafAndIntermediatesEKU (sample_opts_leaf sample_serverAuth)
               = Some (Wrap ''failed to verify EKU on leaf cert: '' err)
            \<or> verifyLeafAndIntermediatesEKU (sample_opts_leaf sample_serverAuth)
               = Some (Wrap ''failed to verify EKU on intermediate cert: '' err))"
proof -
  have good: "TsaCertificate (sample_opts_leaf sample_leaf) = Some sample_leaf"
    and ims: "Intermediates (sample_opts_leaf sample_leaf) = Some [sample_intermediate]"
    and bad: "TsaCertificate (sample_opts_leaf sample_serverAuth) = Some sample_serverAuth"
    and ims': "Intermediates (sample_opts_leaf sample_serverAuth) = Some [sample_intermediate]"
    by (simp_all add: sample_opts_leaf_def)
  show ?thesis
    using C4_eku_chaining [OF good ims] C4_eku_chaining [OF bad ims']
    by (simp add: sample_leaf_def sample_intermediate_def sample_serverAuth_def)
qed

text \<open>
  Claim C5. An absent expectation never rejects: with a nil nonce the nonce check returns
  nil, with a nil policy OID the OID check returns nil, with a nil expected leaf
  certificate the EKU check and the leaf identity checks return nil, and with a nil
  intermediate set the EKU check returns nil, whatever the response holds.
\<close>

theorem C5_absent_expectation:
  "(VerifyOpts.Nonce opts = None \<longrightarrow> verifyNonce requestNonce opts = Returns None)
   \<and> (Oid opts = None \<longrightarrow> verifyOID oid opts = None)
   \<and> (TsaCertificate opts = None \<longrightarrow>
        verifyLeafAndIntermediatesEKU opts = None
        \<and> verifyESSCertID cert opts = None
        \<and> verifyLeafCertSubject subject opts = None
        \<and> verifyEmbeddedLeafCert cert opts = None
        \<and> verifyLeafCert cert opts = None)
   \<and> (Intermediates opts = None \<longrightarrow> verifyLeafAndIntermediatesEKU opts = None)"
  by (simp add: verifyNonce_def verifyOID_def verifyLeafAndIntermediatesEKU_def
      verifyESSCertID_def verifyLeafCertSubject_def verifyEmbeddedLeafCert_def
      verifyLeafCert_nil)

text \<open>The statement at sample values.\<close>

theorem C5_absent_expectation_witness:
  "verifyNonce (Some 42) sample_opts_absent = Returns None
   \<and> verifyOID [1, 2, 3] sample_opts_absent = None
   \<and> verifyLeafAndIntermediatesEKU sample_opts_absent = None
   \<and> verifyESSCertID sample_other sample_opts_absent = None
   \<and> verifyLeafCertSubject ''CN=other'' sample_opts_absent = None
   \<and> verifyEmbeddedLeafCert sample_other sample_opts_absent = None"
  using C5_absent_expectation [of sample_opts_absent "Some 42" "[1, 2, 3]" sample_other "''CN=other''"]
  by (simp add: sample_opts_absent_def)



text \<open>
  Claim C7. The timestamp the handler builds from a validated request carries the policy
  OID 1.3.6.1.4.1.57264.2 when the request has no policy OID, and the policy OID of the
  request, unchanged, when it has one; that timestamp is the one the handler hands to
  \<open>CreateResponse\<close> to produce the response.
\<close>

theorem C7_policy_default:
  "(TSAPolicyOID req = [] \<longrightarrow> Policy (tsStruct req now) = [1, 3, 6, 1, 4, 1, 57264, 2])
   \<and> (TSAPolicyOID req \<noteq> [] \<longrightarrow> Policy (tsStruct req now) = TSAPolicyOID req)
   \<and> (Request params = Inr requestBytes \<longrightarrow>
        decodeRequest S (Content_Type params) requestBytes = Inr (Some req, contentType) \<longrightarrow>
        VerifyRequest S (Some req) = Returns None \<longrightarrow>
        certChain api = leaf # chain \<longrightarrow>
        TimestampResponseHandler S api params =
          (case CreateResponse S (tsStruct req (time_Now S)) leaf (tsaSigner api)
                  (marshalFunc contentType) of
             Inl err \<Rightarrow> Returns (handleTimestampAPIError StatusInternalServerError err
                                    failedToGenerateTimestampResponse)
           | Inr resp \<Rightarrow> Returns (GetTimestampResponseCreated resp)))"
  by (simp add: tsStruct_def policyID_eq TimestampResponseHandler_def)

text \<open>The statement at sample values.\<close>

theorem C7_policy_default_witness:
  "Policy (tsStruct (sample_req []) 0) = [1, 3, 6, 1, 4, 1, 57264, 2]
   \<and> Policy (tsStruct (sample_req [1, 2, 3]) 0) = [1, 2, 3]
   \<and> TimestampResponseHandler sample_Services sample_API
        (sample_Params ''application/timestamp-query'' [48])
      = Returns (GetTimestampResponseCreated [48])"
proof -
  have req: "Request (sample_Params ''application/timestamp-query'' [48]) = Inr [48]"
    by (simp add: sample_Params_def)
  have dec: "decodeRequest sample_Services
               (Content_Type (sample_Params ''application/timestamp-query'' [48])) [48]
             = Inr (Some (sample_req [1, 2, 3]), ''application/timestamp-query'')"
    by (simp add: decodeRequest_def sample_Params_def sample_Services_def)
  have ver: "VerifyRequest sample_Services (Some (sample_req [1, 2, 3])) = Returns None"
    by (simp add: sample_Services_def)
  have chain: "certChain sample_API = sample_leaf # [sample_intermediate, sample_root]"
    by (simp add: sample_API_def)
  have cr: "CreateResponse sample_Services ts leaf signer m = Inr [48]" for ts leaf signer m
    by (simp add: sample_Services_def)
  have e: "TSAPolicyOID (sample_req []) = []" and n: "TSAPolicyOID (sample_req [1, 2, 3]) = [1, 2, 3]"
    by (simp_all add: sample_req_def)
  show ?thesis
    using C7_policy_default [of "sample_req []" 0, THEN conjunct1]
      C7_policy_default [of "sample_req [1, 2, 3]" 0 "sample_Params ''application/timestamp-query'' [48]"
        "[48]" sample_Services "''application/timestamp-query''" sample_API sample_leaf
        "[sample_intermediate, sample_root]"]
    by (simp add: req dec ver chain cr e n)
qed

text \<open>
  Claim C8. In every run of \<open>runCreate\<close>, the call of \<open>CreateCertificates\<close>, inside which
  every certificate is signed, is the last call and is made once; before it the root and
  leaf template paths, and the intermediate template path when an intermediate key
  identifier is configured, have been validated with success. So when one of these paths
  does not validate, \<open>runCreate\<close> returns an error and \<open>CreateCertificates\<close> is not called.
\<close>

theorem C8_templates_before_signing:
  "(case runCreate E of
      (err, calls) \<Rightarrow>
        (Call_CreateCertificates \<in> set calls \<longrightarrow>
           (\<exists>before. calls = before @ [Call_CreateCertificates]
               \<and> Call_CreateCertificates \<notin> set before
               \<and> Call_ValidateTemplatePath (GetString E ''root-template'') \<in> set before
               \<and> ValidateTemplatePath E (GetString E ''root-template'') = None
               \<and> Call_ValidateTemplatePath (GetString E ''leaf-template'') \<in> set before
               \<and> ValidateTemplatePath E (GetString E ''leaf-template'') = None
               \<and> (GetString E ''intermediate-key-id'' \<noteq> '''' \<longrightarrow>
                    Call_ValidateTemplatePath (GetString E ''intermediate-template'') \<in> set before
                    \<and> ValidateTemplatePath E (GetString E ''intermediate-template'') = None)))
        \<and> (ValidateTemplatePath E (GetString E ''root-template'') \<noteq> None
             \<or> ValidateTemplatePath E (GetString E ''leaf-template'') \<noteq> None
             \<or> (GetString E ''intermediate-key-id'' \<noteq> ''''
                 \<and> ValidateTemplatePath E (GetString E ''intermediate-template'') \<noteq> None)
             \<longrightarrow> err \<noteq> None \<and> Call_CreateCertificates \<notin> set calls))"
proof -
  obtain r calls0 where po: "providerOptions E
      \<lparr> Type = GetString E ''kms-type'', RootKeyID = GetString E ''root-key-id'',
        IntermediateKeyID = GetString E ''intermediate-key-id'',
        LeafKeyID = GetString E ''leaf-key-id'', Options = Map.empty \<rparr> = (r, calls0)"
    by (cases "providerOptions E
      \<lparr> Type = GetString E ''kms-type'', RootKeyID = GetString E ''root-key-id'',
        IntermediateKeyID = GetString E ''intermediate-key-id'',
        LeafKeyID = GetString E ''leaf-key-id'', Options = Map.empty \<rparr>") simp
  have nc: "Call_CreateCertificates \<notin> set calls0"
    using po by (auto simp: providerOptions_def Let_def split: if_splits option.splits)
  show ?thesis
    using po nc
    by (auto simp: runCreate_def Let_def split: sum.splits option.splits)
qed

text \<open>The statement at sample values.\<close>

theorem C8_templates_before_signing_witness:
  "fst (runCreate (sample_Certmaker ''leaf.json'')) = Some (Wrap ''leaf template error: '' (New ''template not found''))
   \<and> Call_CreateCertificates \<notin> set (snd (runCreate (sample_Certmaker ''leaf.json'')))
   \<and> snd (runCreate (sample_Certmaker ''none'')) =
        [Call_InitKMS, Call_ValidateTemplatePath ''root.json'', Call_ValidateTemplatePath ''leaf.json'',
         Call_ValidateTemplatePath ''intermediate.json'', Call_CreateCertificates]"
proof -
  have run1: "runCreate (sample_Certmaker ''leaf.json'') =
        (Some (Wrap ''leaf template error: '' (New ''template not found'')),
         [Call_InitKMS, Call_ValidateTemplatePath ''root.json'', Call_ValidateTemplatePath ''leaf.json''])"
    by (simp add: runCreate_def providerOptions_def sample_Certmaker_def Let_def)
  have run2: "runCreate (sample_Certmaker ''none'') =
        (None,
         [Call_InitKMS, Call_ValidateTemplatePath ''root.json'', Call_ValidateTemplatePath ''leaf.json'',
          Call_ValidateTemplatePath ''intermediate.json'', Call_CreateCertificates])"
    by (simp add: runCreate_def providerOptions_def sample_Certmaker_def Let_def)
  have bad: "ValidateTemplatePath (sample_Certmaker ''leaf.json'')
               (GetString (sample_Certmaker ''leaf.json'') ''leaf-template'') \<noteq> None"
    by (simp add: sample_Certmaker_def)
  show ?thesis
    using C8_templates_before_signing [of "sample_Certmaker ''leaf.json''"]
      C8_templates_before_signing [of "sample_Certmaker ''none''"] bad
    by (simp add: run1 run2)
qed

text \<open>
  Claim C9. For a response that parses and whose signature verifies against the pool,
  \<open>VerifyTimestampResponse\<close> reads element 0 of the embedded certificates with no test of
  the length, whether or not an expected leaf certificate is supplied: it panics with an
  index out of range exactly when the nonce, policy OID and EKU checks have passed and the
  list is empty. Hence the operation returns for all options and artifacts only if the
  token embeds at least one certificate.
\<close>

theorem C9_index_panic:
  assumes "ParseResponse L tsrBytes = Inr ts" and "verifyTSRWithChain L ts certPool = None"
  shows "(VerifyTimestampResponse L tsrBytes artifact certPool opts = Panics IndexOutOfRange)
           = (verifyNonce (Timestamp.Nonce ts) opts = Returns None
              \<and> verifyOID (Policy ts) opts = None
              \<and> verifyLeafAndIntermediatesEKU opts = None
              \<and> Timestamp.Certificates ts = [])
         \<and> ((\<forall>opts' artifact'. \<exists>r. VerifyTimestampResponse L tsrBytes artifact' certPool opts' = Returns r)
              \<longrightarrow> Timestamp.Certificates ts \<noteq> [])"
proof -
  have iff: "(VerifyTimestampResponse L tsrBytes artifact' certPool opts' = Panics IndexOutOfRange)
           = (verifyNonce (Timestamp.Nonce ts) opts' = Returns None
              \<and> verifyOID (Policy ts) opts' = None
              \<and> verifyLeafAndIntermediatesEKU opts' = None
              \<and> Timestamp.Certificates ts = [])" for opts' artifact'
    using assms
    by (auto simp: VerifyTimestampResponse_def verifyLeafCert_nil verifyNonce_def
        split: option.splits exec.splits list.splits)
  let ?absent = "\<lparr> Oid = None, TsaCertificate = None, Intermediates = None, Roots = None,
       VerifyOpts.Nonce = None, VerifyOpts.Subject = '''', VerifyOpts.HashAlgorithm = None,
       VerifyOpts.HashedMessage = [] \<rparr>"
  have "Timestamp.Certificates ts = [] \<Longrightarrow>
          VerifyTimestampResponse L tsrBytes artifact certPool ?absent = Panics IndexOutOfRange"
    by (simp add: iff verifyNonce_def verifyOID_def verifyLeafAndIntermediatesEKU_def)
  then have "(\<forall>opts' artifact'. \<exists>r. VerifyTimestampResponse L tsrBytes artifact' certPool opts' = Returns r)
              \<longrightarrow> Timestamp.Certificates ts \<noteq> []"
    by (metis exec.distinct(1))
  with iff show ?thesis by blast
qed

text \<open>The statement at sample values.\<close>

theorem C9_index_panic_witness:
  "VerifyTimestampResponse sample_Library [50] (Inr [171]) [sample_root] sample_opts_absent
     = Panics IndexOutOfRange"
proof -
  have parse: "ParseResponse sample_Library [50] = Inr (sample_ts [])"
    by (simp add: sample_Library_def)
  have chain: "verifyTSRWithChain sample_Library (sample_ts []) [sample_root] = None"
    by (simp add: verifyTSRWithChain_def sample_Library_def)
  show ?thesis
    using C9_index_panic [OF parse chain, of "Inr [171]" sample_opts_absent]
    by (simp add: verifyNonce_def verifyOID_def verifyLeafAndIntermediatesEKU_def
        sample_opts_absent_def sample_ts_def)
qed

text \<open>
  Claim C10. When the Content-Type header is neither "application/json" nor
  "application/timestamp-query", the decoding lines call no parser and return no
  responder: the request stays nil and the content type stays empty, for which the
  marshaller chosen is the DER one. The handler passes the nil request to
  \<open>VerifyRequest\<close>; its answer is the bad request of the validation when \<open>VerifyRequest\<close>
  returns an error, and a nil pointer dereference at \<open>req.TSAPolicyOID\<close> when it returns
  nil.
\<close>

theorem C10_other_content_type:
  assumes "Content_Type params \<noteq> ''application/json''"
    and "Content_Type params \<noteq> ''application/timestamp-query''"
  shows "decodeRequest S (Content_Type params) requestBytes = Inr (None, '''')
         \<and> marshalFunc '''' = asn1_Marshal
         \<and> TimestampResponseHandler S api params =
             (case Request params of
                Inl err \<Rightarrow>
                  Returns (handleTimestampAPIError StatusBadRequest err failedToGenerateTimestampResponse)
              | Inr body \<Rightarrow>
                  (case VerifyRequest S None of
                     Panics p \<Rightarrow> Panics p
                   | Returns (Some err) \<Rightarrow>
                       Returns (handleTimestampAPIError StatusBadRequest err
                                  weakHashAlgorithmTimestampRequest)
                   | Returns None \<Rightarrow> Panics NilPointerDereference))"
  using assms
  by (simp add: decodeRequest_def marshalFunc_def TimestampResponseHandler_def
      split: sum.splits exec.splits option.splits)

text \<open>The statement at sample values.\<close>

theorem C10_other_content_type_witness:
  "decodeRequest sample_Services ''text/plain'' [48] = Inr (None, '''')
   \<and> TimestampResponseHandler sample_Services sample_API (sample_Params ''text/plain'' [48])
      = Returns (handleTimestampAPIError StatusBadRequest (New ''no request'')
                   weakHashAlgorithmTimestampRequest)"
proof -
  have ct: "Content_Type (sample_Params ''text/plain'' [48]) = ''text/plain''"
    and rq: "Request (sample_Params ''text/plain'' [48]) = Inr [48]"
    by (simp_all add: sample_Params_def)
  have a: "Content_Type (sample_Params ''text/plain'' [48]) \<noteq> ''application/json''"
    and b: "Content_Type (sample_Params ''text/plain'' [48]) \<noteq> ''application/timestamp-query''"
    by (simp_all add: ct)
  have v: "VerifyRequest sample_Services None = Returns (Some (New ''no request''))"
    by (simp add: sample_Services_def)
  show ?thesis
    using C10_other_content_type [OF a b, of sample_Services "[48]" sample_API]
    by (simp add: ct rq v)
qed

end
